theory Spec2Isabelle
  imports Complex_Main
begin

section \<open>Python values, types and exceptions\<close>

text \<open>
  The notebook works with Python objects of a few built-in classes and with the class
  objects themselves (an annotation such as \<open>int\<close> evaluates to the class object).
  A float is represented by the real number it denotes: rounding, infinities and NaN are
  outside the model. The generators of the notebook only produce finite floats.
\<close>

datatype pytype = TInt | TFloat | TBool | TStr | TNoneType | TType | TObject

datatype pyval =
    VInt int
  | VFloat real
  | VBool bool
  | VStr string
  | VNone
  | VType pytype

datatype exn =
    IndexError
  | KeyError
  | AttributeError
  | TypeError
  | NameError
  | SyntaxError
  | UnboundLocalError
  | AssertionError
  | OtherError string

text \<open>\<open>type(v)\<close>.\<close>

fun type_of :: "pyval \<Rightarrow> pytype" where
  "type_of (VInt _) = TInt"
| "type_of (VFloat _) = TFloat"
| "type_of (VBool _) = TBool"
| "type_of (VStr _) = TStr"
| "type_of VNone = TNoneType"
| "type_of (VType _) = TType"

text \<open>
  \<open>issubclass(c, d)\<close> for the built-in classes of the model: every class is a subclass of
  itself and of \<open>object\<close>, and \<open>bool\<close> is a subclass of \<open>int\<close>.
\<close>

definition issubclass :: "pytype \<Rightarrow> pytype \<Rightarrow> bool" where
  "issubclass c d = (c = d \<or> d = TObject \<or> (c = TBool \<and> d = TInt))"

text \<open>
  \<open>isinstance(v, t)\<close>: the second argument must be a class object, anything else raises
  \<open>TypeError\<close>.
\<close>

fun isinstance :: "pyval \<Rightarrow> pyval \<Rightarrow> exn + bool" where
  "isinstance v (VType t) = Inr (issubclass (type_of v) t)"
| "isinstance v _ = Inl TypeError"

section \<open>Function definitions and callables\<close>

text \<open>
  The part of the abstract syntax that \<open>ast.parse\<close> returns for a \<open>def\<close> statement
  (Python 3.8, the kernel of the notebook): the node \<open>arguments\<close> with the positional-only
  parameters, the ordinary positional parameters (\<open>args.args\<close>), \<open>*args\<close>, the
  keyword-only parameters and \<open>**kwargs\<close>, each parameter with an optional annotation,
  and the optional \<open>returns\<close> annotation. Default values are not read by the notebook and
  are left out. An annotation expression is a \<open>Name\<close> node, which has the field \<open>id\<close>,
  or a node of another class, which has not; the latter is represented by \<open>Constant\<close>
  with the object it evaluates to.
\<close>

datatype expr = Name string | Constant pyval

record arg =
  arg_name :: string
  annotation :: "expr option"

record arguments =
  posonlyargs :: "arg list"
  args :: "arg list"
  vararg :: "arg option"
  kwonlyargs :: "arg list"
  kwarg :: "arg option"

record FunctionDef =
  def_name :: string
  def_args :: arguments
  returns :: "expr option"

text \<open>The node \<open>arguments\<close> of a function with ordinary positional parameters only.\<close>

definition positional :: "arg list \<Rightarrow> arguments" where
  "positional as =
     \<lparr>posonlyargs = [], args = as, vararg = None, kwonlyargs = [], kwarg = None\<rparr>"

text \<open>
  What a call \<open>f(v)\<close> with one positional argument does: it returns an object, raises an
  exception, or never comes back.
\<close>

datatype outcome = Returns pyval | Raises exn | Diverges

text \<open>
  A function object defined at the top level of the notebook, whose source is available:
  the definition that \<open>inspect.getsource\<close> and \<open>ast.parse\<close> recover, the dictionary
  \<open>__annotations__\<close> (in insertion order) and the behaviour of a call.
\<close>

record callable =
  decl :: FunctionDef
  annotations :: "(string \<times> pyval) list"
  call :: "pyval \<Rightarrow> outcome"

type_synonym env = "(string \<times> pyval) list"

text \<open>Evaluation of an annotation expression in the global names of the notebook.\<close>

fun eval_expr :: "env \<Rightarrow> expr \<Rightarrow> exn + pyval" where
  "eval_expr g (Name x) = (case map_of g x of None \<Rightarrow> Inl NameError | Some v \<Rightarrow> Inr v)"
| "eval_expr g (Constant v) = Inr v"

text \<open>
  The annotations of the parameters, evaluated from left to right when the \<open>def\<close>
  statement runs; parameters without annotation contribute no key.
\<close>

fun eval_params :: "env \<Rightarrow> arg list \<Rightarrow> exn + (string \<times> pyval) list" where
  "eval_params g [] = Inr []"
| "eval_params g (a # as) =
     (case annotation a of
        None \<Rightarrow> eval_params g as
      | Some e \<Rightarrow>
          (case eval_expr g e of
             Inl err \<Rightarrow> Inl err
           | Inr v \<Rightarrow>
               (case eval_params g as of
                  Inl err \<Rightarrow> Inl err
                | Inr kvs \<Rightarrow> Inr ((arg_name a, v) # kvs))))"

text \<open>The key \<open>'return'\<close> comes last in \<open>__annotations__\<close>.\<close>

definition eval_returns :: "env \<Rightarrow> expr option \<Rightarrow> exn + (string \<times> pyval) list" where
  "eval_returns g r =
     (case r of
        None \<Rightarrow> Inr []
      | Some e \<Rightarrow> (case eval_expr g e of Inl err \<Rightarrow> Inl err | Inr v \<Rightarrow> Inr [(''return'', v)]))"

text \<open>
  The order in which the compiler of CPython 3.8 visits the parameters when it builds
  \<open>__annotations__\<close>: the ordinary positional parameters, then the positional-only ones,
  \<open>*args\<close>, the keyword-only ones and \<open>**kwargs\<close>.
\<close>

definition annotation_order :: "arguments \<Rightarrow> arg list" where
  "annotation_order a =
     args a @ posonlyargs a @ (case vararg a of None \<Rightarrow> [] | Some v \<Rightarrow> [v])
       @ kwonlyargs a @ (case kwarg a of None \<Rightarrow> [] | Some k \<Rightarrow> [k])"

text \<open>
  Execution of \<open>def name(params) -> returns: body\<close>. The parser rejects duplicate
  parameter names, and \<open>return\<close> is a reserved word, so it is never a parameter name.
\<close>

definition def_stmt :: "env \<Rightarrow> FunctionDef \<Rightarrow> (pyval \<Rightarrow> outcome) \<Rightarrow> exn + callable" where
  "def_stmt g fd body =
     (if distinct (map arg_name (annotation_order (def_args fd)))
         \<and> ''return'' \<notin> set (map arg_name (annotation_order (def_args fd)))
      then
        (case eval_params g (annotation_order (def_args fd)) of
           Inl err \<Rightarrow> Inl err
         | Inr ps \<Rightarrow>
             (case eval_returns g (returns fd) of
                Inl err \<Rightarrow> Inl err
              | Inr rs \<Rightarrow> Inr \<lparr>decl = fd, annotations = ps @ rs, call = body\<rparr>))
      else Inl SyntaxError)"

section \<open>Signature extraction\<close>

text \<open>\<open>xs[0]\<close> on a list.\<close>

definition first_item :: "'a list \<Rightarrow> exn + 'a" where
  "first_item xs = (case xs of [] \<Rightarrow> Inl IndexError | x # _ \<Rightarrow> Inr x)"

text \<open>\<open>node.id\<close> where \<open>node\<close> is an annotation field of the syntax tree (possibly \<open>None\<close>).\<close>

fun node_id :: "expr option \<Rightarrow> exn + string" where
  "node_id (Some (Name x)) = Inr x"
| "node_id _ = Inl AttributeError"

text \<open>
  The first definition of \<open>signature\<close> in the notebook, which reads the syntax tree:
  \<^verbatim>\<open>
  def signature(f):
      a = ast.parse(inspect.getsource(f))
      type_in = a.body[0].args.args[0].annotation.id
      type_out = a.body[0].returns.id
      return (type_in, type_out)
  \<close>
\<close>

definition signature_ast :: "callable \<Rightarrow> exn + (pyval \<times> pyval)" where
  "signature_ast f =
     (case first_item (args (def_args (decl f))) of
        Inl err \<Rightarrow> Inl err
      | Inr a0 \<Rightarrow>
          (case node_id (annotation a0) of
             Inl err \<Rightarrow> Inl err
           | Inr type_in \<Rightarrow>
               (case node_id (returns (decl f)) of
                  Inl err \<Rightarrow> Inl err
                | Inr type_out \<Rightarrow> Inr (VStr type_in, VStr type_out))))"

text \<open>\<open>a[k]\<close> on a dictionary.\<close>

definition subscript :: "(string \<times> pyval) list \<Rightarrow> string \<Rightarrow> exn + pyval" where
  "subscript a k = (case map_of a k of None \<Rightarrow> Inl KeyError | Some v \<Rightarrow> Inr v)"

text \<open>
  The second definition of \<open>signature\<close>, which replaces the first one in the notebook and
  is the one \<open>safe\<close> calls:
  \<^verbatim>\<open>
  def signature(f):
      a = f.__annotations__
      type_in = [a[k] for k in a if k != 'return'][0]
      type_out = a['return']
      return (type_in, type_out)
  \<close>
\<close>

definition signature_attr :: "callable \<Rightarrow> exn + (pyval \<times> pyval)" where
  "signature_attr f =
     (let a = annotations f in
      case first_item (map snd (filter (\<lambda>kv. fst kv \<noteq> ''return'') a)) of
        Inl err \<Rightarrow> Inl err
      | Inr type_in \<Rightarrow>
          (case subscript a ''return'' of
             Inl err \<Rightarrow> Inl err
           | Inr type_out \<Rightarrow> Inr (type_in, type_out)))"

section \<open>The random module\<close>

text \<open>
  The functions of Python's standard module \<open>random\<close> that the notebook calls, modelled
  from the library's documentation and code: the generator is a stream of raw words read at
  a cursor; \<open>randint(a, b)\<close> is \<open>a + randbelow(b - a + 1)\<close>, \<open>random()\<close> is a 53-bit
  fraction in \<open>[0, 1)\<close> and \<open>uniform(a, b)\<close> is \<open>a + (b - a) * random()\<close>. Each call moves
  the cursor by one. \<open>randint\<close> is given for \<open>a \<le> b\<close>, which is how the notebook calls
  it (Python raises \<open>ValueError\<close> on an empty range).
\<close>

record rng =
  entropy :: "nat \<Rightarrow> nat"
  cursor :: nat

definition next_word :: "rng \<Rightarrow> nat \<times> rng" where
  "next_word r = (entropy r (cursor r), r\<lparr>cursor := cursor r + 1\<rparr>)"

definition randbelow :: "nat \<Rightarrow> rng \<Rightarrow> nat \<times> rng" where
  "randbelow n r = (let (w, r') = next_word r in (w mod n, r'))"

definition randint :: "int \<Rightarrow> int \<Rightarrow> rng \<Rightarrow> int \<times> rng" where
  "randint a b r = (let (k, r') = randbelow (nat (b - a + 1)) r in (a + int k, r'))"

definition random_unit :: "rng \<Rightarrow> real \<times> rng" where
  "random_unit r = (let (w, r') = next_word r in (real (w mod 2 ^ 53) / 2 ^ 53, r'))"

definition uniform :: "real \<Rightarrow> real \<Rightarrow> rng \<Rightarrow> real \<times> rng" where
  "uniform a b r = (let (u, r') = random_unit r in (a + (b - a) * u, r'))"

text \<open>The generator after \<open>k\<close> further calls.\<close>

definition advance :: "nat \<Rightarrow> rng \<Rightarrow> rng" where
  "advance k r = r\<lparr>cursor := cursor r + k\<rparr>"

section \<open>The safety checker\<close>

text \<open>
  \<^verbatim>\<open>
  def safe(f):
      (type_in, type_out) = signature(f)

      for i in range(10000): # Run 100 trials.

          # Generate a random input of the appropriate type.
          if type_in is int:
              value_in = random.randint(-2**16, (2**16)-1)
          if type_in is float:
              value_in = random.uniform(-2**16, (2**16)-1)

          # Check that output has the correct type.
          try:
              value_out = f(value_in)
              assert(isinstance(value_out, type_out))
          except:
              return False

      return True # All trials succeeded.
  \<close>
  \<open>-2**16\<close> is \<open>-(2**16)\<close> in Python. The state of the module \<open>random\<close> is passed in and
  returned with the result.
\<close>

text \<open>
  The two generator statements at the top of the loop body. The local variable
  \<open>value_in\<close> is unbound (\<open>None\<close>) until one of them assigns it.
  \<^verbatim>\<open>
  if type_in is int:
      value_in = random.randint(-2**16, (2**16)-1)
  if type_in is float:
      value_in = random.uniform(-2**16, (2**16)-1)
  \<close>
\<close>

definition generate :: "pyval \<Rightarrow> pyval option \<Rightarrow> rng \<Rightarrow> pyval option \<times> rng" where
  "generate type_in value_in r =
     (let (value_in, r) =
            (if type_in = VType TInt
             then (let (n, r') = randint (- (2 ^ 16)) ((2 ^ 16) - 1) r in (Some (VInt n), r'))
             else (value_in, r));
          (value_in, r) =
            (if type_in = VType TFloat
             then (let (x, r') = uniform (- (2 ^ 16)) ((2 ^ 16) - 1) r in (Some (VFloat x), r'))
             else (value_in, r))
      in (value_in, r))"

text \<open>
  The body of the \<open>try\<close> statement: \<open>None\<close> when the call never returns, otherwise the
  exception that left the body or normal completion.
  \<^verbatim>\<open>
  value_out = f(value_in)
  assert(isinstance(value_out, type_out))
  \<close>
\<close>

definition try_body :: "(pyval \<Rightarrow> outcome) \<Rightarrow> pyval \<Rightarrow> pyval option \<Rightarrow> (exn + unit) option" where
  "try_body f type_out value_in =
     (case value_in of
        None \<Rightarrow> Some (Inl UnboundLocalError)
      | Some v \<Rightarrow>
          (case f v of
             Diverges \<Rightarrow> None
           | Raises err \<Rightarrow> Some (Inl err)
           | Returns value_out \<Rightarrow>
               (case isinstance value_out type_out of
                  Inl err \<Rightarrow> Some (Inl err)
                | Inr b \<Rightarrow> if b then Some (Inr ()) else Some (Inl AssertionError))))"

text \<open>
  The loop \<open>for i in range(n)\<close> with its \<open>try\<close>/\<open>except\<close>, by recursion on the trials left:
  the bare \<open>except\<close> turns every exception into \<open>return False\<close>, and the statement after
  the loop is \<open>return True\<close>. The result carries the state of the generator at the return.
\<close>

fun safe_loop ::
  "(pyval \<Rightarrow> outcome) \<Rightarrow> pyval \<Rightarrow> pyval \<Rightarrow> nat \<Rightarrow> pyval option \<Rightarrow> rng \<Rightarrow> (bool \<times> rng) option"
where
  "safe_loop f type_in type_out 0 value_in r = Some (True, r)"
| "safe_loop f type_in type_out (Suc n) value_in r =
     (let (value_in', r') = generate type_in value_in r in
      case try_body f type_out value_in' of
        None \<Rightarrow> None
      | Some (Inl err) \<Rightarrow> Some (False, r')
      | Some (Inr u) \<Rightarrow> safe_loop f type_in type_out n value_in' r')"

text \<open>
  \<open>safe\<close> with the number of trials as a parameter. The call of \<open>signature\<close> is outside the
  \<open>try\<close> statement, so its exception leaves \<open>safe\<close>. The result is \<open>None\<close> when \<open>safe\<close>
  does not return.
\<close>

definition safe_for :: "nat \<Rightarrow> callable \<Rightarrow> rng \<Rightarrow> (exn + bool \<times> rng) option" where
  "safe_for n f r =
     (case signature_attr f of
        Inl err \<Rightarrow> Some (Inl err)
      | Inr (type_in, type_out) \<Rightarrow>
          map_option Inr (safe_loop (call f) type_in type_out n None r))"

text \<open>\<open>safe\<close> as the notebook has it, with \<open>range(10000)\<close>.\<close>

definition safe :: "callable \<Rightarrow> rng \<Rightarrow> (exn + bool \<times> rng) option" where
  "safe f r = safe_for 10000 f r"

section \<open>The functions defined in the notebook\<close>

text \<open>The built-in names the annotations of the notebook refer to.\<close>

definition builtins :: env where
  "builtins =
     [(''int'', VType TInt), (''float'', VType TFloat), (''bool'', VType TBool),
      (''str'', VType TStr), (''type'', VType TType), (''object'', VType TObject)]"

text \<open>The global names after \<open>Number = int\<close>.\<close>

definition notebook_globals :: env where
  "notebook_globals = (''Number'', VType TInt) # builtins"

text \<open>
  \<open>x + y\<close> on the objects of the model: integers and Booleans add as integers, a float
  and a number add as floats, strings concatenate, anything else raises \<open>TypeError\<close>.
\<close>

fun as_int :: "pyval \<Rightarrow> int option" where
  "as_int (VInt n) = Some n"
| "as_int (VBool b) = Some (of_bool b)"
| "as_int _ = None"

fun as_real :: "pyval \<Rightarrow> real option" where
  "as_real (VFloat x) = Some x"
| "as_real (VInt n) = Some (of_int n)"
| "as_real (VBool b) = Some (of_bool b)"
| "as_real _ = None"

fun as_str :: "pyval \<Rightarrow> string option" where
  "as_str (VStr s) = Some s"
| "as_str _ = None"

definition py_add :: "pyval \<Rightarrow> pyval \<Rightarrow> exn + pyval" where
  "py_add x y =
     (case (as_int x, as_int y) of
        (Some a, Some b) \<Rightarrow> Inr (VInt (a + b))
      | _ \<Rightarrow>
          (case (as_real x, as_real y) of
             (Some a, Some b) \<Rightarrow> Inr (VFloat (a + b))
           | _ \<Rightarrow>
               (case (as_str x, as_str y) of
                  (Some a, Some b) \<Rightarrow> Inr (VStr (a @ b))
                | _ \<Rightarrow> Inl TypeError)))"

definition to_outcome :: "exn + pyval \<Rightarrow> outcome" where
  "to_outcome r = (case r of Inl err \<Rightarrow> Raises err | Inr v \<Rightarrow> Returns v)"

text \<open>
  \<^verbatim>\<open>
  Number = int

  def double(x: Number) -> Number:
      return x + x
  \<close>
\<close>

definition double_def :: FunctionDef where
  "double_def =
     \<lparr>def_name = ''double'',
      def_args = positional [\<lparr>arg_name = ''x'', annotation = Some (Name ''Number'')\<rparr>],
      returns = Some (Name ''Number'')\<rparr>"

definition double_body :: "pyval \<Rightarrow> outcome" where
  "double_body x = to_outcome (py_add x x)"

definition double :: callable where
  "double =
     \<lparr>decl = double_def,
      annotations = [(''x'', VType TInt), (''return'', VType TInt)],
      call = double_body\<rparr>"

text \<open>
  \<^verbatim>\<open>
  def triple(x: int) -> int:
      return x + x + x
  \<close>
\<close>

definition triple_def :: FunctionDef where
  "triple_def =
     \<lparr>def_name = ''triple'',
      def_args = positional [\<lparr>arg_name = ''x'', annotation = Some (Name ''int'')\<rparr>],
      returns = Some (Name ''int'')\<rparr>"

definition triple_body :: "pyval \<Rightarrow> outcome" where
  "triple_body x =
     to_outcome (case py_add x x of Inl err \<Rightarrow> Inl err | Inr y \<Rightarrow> py_add y x)"

definition triple :: callable where
  "triple =
     \<lparr>decl = triple_def,
      annotations = [(''x'', VType TInt), (''return'', VType TInt)],
      call = triple_body\<rparr>"

text \<open>
  \<^verbatim>\<open>
  def floor(x: float) -> int:
      return int(x) if x > 0 else x
  \<close>
  The comparison \<open>x > 0\<close> is defined for numbers only; \<open>int(x)\<close> truncates towards zero,
  which for a positive number is the integer part.
\<close>

definition floor_def :: FunctionDef where
  "floor_def =
     \<lparr>def_name = ''floor'',
      def_args = positional [\<lparr>arg_name = ''x'', annotation = Some (Name ''float'')\<rparr>],
      returns = Some (Name ''int'')\<rparr>"

fun floor_body :: "pyval \<Rightarrow> outcome" where
  "floor_body (VFloat x) = (if x > 0 then Returns (VInt \<lfloor>x\<rfloor>) else Returns (VFloat x))"
| "floor_body (VInt n) = (if n > 0 then Returns (VInt n) else Returns (VInt n))"
| "floor_body (VBool b) = (if b then Returns (VInt 1) else Returns (VBool b))"
| "floor_body (VStr s) = Raises TypeError"
| "floor_body VNone = Raises TypeError"
| "floor_body (VType t) = Raises TypeError"

definition floor_fn :: callable where
  "floor_fn =
     \<lparr>decl = floor_def,
      annotations = [(''x'', VType TFloat), (''return'', VType TInt)],
      call = floor_body\<rparr>"

section \<open>Notions used to state the properties\<close>

text \<open>
  The value of \<open>value_in\<close> and the generator in trial \<open>k\<close> (counted from 0), right after
  the generator statements of that trial, when the loop starts with \<open>value_in\<close> and \<open>r\<close>
  and reaches trial \<open>k\<close>.
\<close>

fun trial_input :: "pyval \<Rightarrow> pyval option \<Rightarrow> nat \<Rightarrow> rng \<Rightarrow> pyval option \<times> rng" where
  "trial_input type_in value_in 0 r = generate type_in value_in r"
| "trial_input type_in value_in (Suc k) r =
     (let (value_in', r') = generate type_in value_in r in trial_input type_in value_in' k r')"

text \<open>
  What the loop keeps of the trial with input \<open>v\<close>: whether the \<open>try\<close> body completed
  (\<open>Some True\<close>), was left by an exception (\<open>Some False\<close>), or does not return.
\<close>

definition trial_ok :: "(pyval \<Rightarrow> outcome) \<Rightarrow> pyval \<Rightarrow> pyval \<Rightarrow> bool option" where
  "trial_ok f type_out v =
     (case try_body f type_out (Some v) of
        None \<Rightarrow> None
      | Some (Inl err) \<Rightarrow> Some False
      | Some (Inr u) \<Rightarrow> Some True)"

text \<open>A generator whose raw words are all \<open>w\<close>.\<close>

definition constant_rng :: "nat \<Rightarrow> rng" where
  "constant_rng w = \<lparr>entropy = (\<lambda>i. w), cursor = 0\<rparr>"

text \<open>
  A generator whose first \<open>random()\<close> is \<open>3/4\<close> and whose later ones are \<open>0\<close>: the first
  float it generates for the checker is positive, the second is \<open>-65536\<close>.
\<close>

definition sample_rng :: rng where
  "sample_rng = \<lparr>entropy = (\<lambda>i. if i = 0 then 3 * 2 ^ 51 else 0), cursor = 0\<rparr>"

text \<open>
  Callables that are not in the notebook, used as inputs of the two functions:
  \<^verbatim>\<open>
  def spin(x: int) -> int:
      while True: pass

  def plus(x: int, y: int) -> int:
      return x + y

  def answer() -> int:
      return 42

  def posonly(a: float, /, b: int) -> int:
      return b

  def kwonly(*, x: int) -> int:
      return x

  def twice(s: str) -> str:
      return s + s
  \<close>
  A call of \<open>plus\<close>, \<open>answer\<close>, \<open>posonly\<close> or \<open>kwonly\<close> with one positional argument
  raises \<open>TypeError\<close>.
\<close>

definition spin_def :: FunctionDef where
  "spin_def =
     \<lparr>def_name = ''spin'',
      def_args = positional [\<lparr>arg_name = ''x'', annotation = Some (Name ''int'')\<rparr>],
      returns = Some (Name ''int'')\<rparr>"

definition spin_body :: "pyval \<Rightarrow> outcome" where
  "spin_body x = Diverges"

definition spin :: callable where
  "spin =
     \<lparr>decl = spin_def,
      annotations = [(''x'', VType TInt), (''return'', VType TInt)],
      call = spin_body\<rparr>"

definition plus_def :: FunctionDef where
  "plus_def =
     \<lparr>def_name = ''plus'',
      def_args = positional [\<lparr>arg_name = ''x'', annotation = Some (Name ''int'')\<rparr>,
                                \<lparr>arg_name = ''y'', annotation = Some (Name ''int'')\<rparr>],
      returns = Some (Name ''int'')\<rparr>"

definition missing_argument :: "pyval \<Rightarrow> outcome" where
  "missing_argument x = Raises TypeError"

definition plus_fn :: callable where
  "plus_fn =
     \<lparr>decl = plus_def,
      annotations = [(''x'', VType TInt), (''y'', VType TInt), (''return'', VType TInt)],
      call = missing_argument\<rparr>"

definition answer_def :: FunctionDef where
  "answer_def =
     \<lparr>def_name = ''answer'', def_args = positional [], returns = Some (Name ''int'')\<rparr>"

definition unexpected_argument :: "pyval \<Rightarrow> outcome" where
  "unexpected_argument x = Raises TypeError"

definition answer :: callable where
  "answer =
     \<lparr>decl = answer_def,
      annotations = [(''return'', VType TInt)],
      call = unexpected_argument\<rparr>"

definition posonly_def :: FunctionDef where
  "posonly_def =
     \<lparr>def_name = ''posonly'',
      def_args =
        \<lparr>posonlyargs = [\<lparr>arg_name = ''a'', annotation = Some (Name ''float'')\<rparr>],
         args = [\<lparr>arg_name = ''b'', annotation = Some (Name ''int'')\<rparr>],
         vararg = None, kwonlyargs = [], kwarg = None\<rparr>,
      returns = Some (Name ''int'')\<rparr>"

definition posonly :: callable where
  "posonly =
     \<lparr>decl = posonly_def,
      annotations = [(''b'', VType TInt), (''a'', VType TFloat), (''return'', VType TInt)],
      call = missing_argument\<rparr>"

definition kwonly_def :: FunctionDef where
  "kwonly_def =
     \<lparr>def_name = ''kwonly'',
      def_args =
        \<lparr>posonlyargs = [], args = [], vararg = None,
         kwonlyargs = [\<lparr>arg_name = ''x'', annotation = Some (Name ''int'')\<rparr>],
         kwarg = None\<rparr>,
      returns = Some (Name ''int'')\<rparr>"

definition kwonly :: callable where
  "kwonly =
     \<lparr>decl = kwonly_def,
      annotations = [(''x'', VType TInt), (''return'', VType TInt)],
      call = unexpected_argument\<rparr>"

definition twice_def :: FunctionDef where
  "twice_def =
     \<lparr>def_name = ''twice'',
      def_args = positional [\<lparr>arg_name = ''s'', annotation = Some (Name ''str'')\<rparr>],
      returns = Some (Name ''str'')\<rparr>"

definition twice :: callable where
  "twice =
     \<lparr>decl = twice_def,
      annotations = [(''s'', VType TStr), (''return'', VType TStr)],
      call = double_body\<rparr>"

text \<open>
  A wrapper of \<open>floor\<close> that fails on the same inputs, with other errors:
  \<^verbatim>\<open>
  def floor_raising(x: float) -> int:
      try:
          y = floor(x)
      except:
          raise Exception('bad input')
      if isinstance(y, float):
          raise Exception('not an int')
      return y
  \<close>
\<close>

definition floor_raising_body :: "pyval \<Rightarrow> outcome" where
  "floor_raising_body x =
     (case floor_body x of
        Raises err \<Rightarrow> Raises (OtherError ''bad input'')
      | Diverges \<Rightarrow> Diverges
      | Returns y \<Rightarrow>
          (if issubclass (type_of y) TFloat then Raises (OtherError ''not an int'')
           else Returns y))"

definition floor_raising :: callable where
  "floor_raising =
     \<lparr>decl = floor_def\<lparr>def_name := ''floor_raising''\<rparr>,
      annotations = [(''x'', VType TFloat), (''return'', VType TInt)],
      call = floor_raising_body\<rparr>"

section \<open>Auxiliary facts\<close>

lemma double_defined: "def_stmt notebook_globals double_def double_body = Inr double"
  by (simp add: def_stmt_def positional_def annotation_order_def double_def_def double_def
      eval_returns_def notebook_globals_def builtins_def)

lemma advance_0: "advance 0 r = r"
  by (simp add: advance_def)

lemma advance_advance: "advance k (advance j r) = advance (j + k) r"
  by (simp add: advance_def add.assoc)

lemma next_word_rng: "snd (next_word r) = advance 1 r"
  by (simp add: next_word_def advance_def)

lemma randint_rng: "snd (randint a b r) = advance 1 r"
  by (simp add: randint_def randbelow_def next_word_def advance_def split: prod.splits)

lemma uniform_rng: "snd (uniform a b r) = advance 1 r"
  by (simp add: uniform_def random_unit_def next_word_def advance_def split: prod.splits)

lemma randint_range: "a \<le> b \<Longrightarrow> a \<le> fst (randint a b r) \<and> fst (randint a b r) \<le> b"
proof -
  assume ab: "a \<le> b"
  have pos: "0 < nat (b - a + 1)" using ab by simp
  have "entropy r (cursor r) mod nat (b - a + 1) < nat (b - a + 1)"
    using pos by (rule mod_less_divisor)
  then have "int (entropy r (cursor r) mod nat (b - a + 1)) < b - a + 1"
    using ab by linarith
  then show ?thesis
    by (simp add: randint_def randbelow_def next_word_def)
qed

lemma random_unit_range: "0 \<le> fst (random_unit r) \<and> fst (random_unit r) < 1"
proof -
  have "entropy r (cursor r) mod 2 ^ 53 < (2::nat) ^ 53" by simp
  then have "real (entropy r (cursor r) mod 2 ^ 53) < 2 ^ 53"
    by (metis of_nat_less_iff of_nat_numeral of_nat_power)
  then show ?thesis
    by (simp add: random_unit_def next_word_def)
qed

lemma uniform_range: "a \<le> b \<Longrightarrow> a \<le> fst (uniform a b r) \<and> fst (uniform a b r) \<le> b"
proof -
  assume ab: "a \<le> b"
  obtain u where u: "u = fst (random_unit r)" by simp
  have u01: "0 \<le> u \<and> u < 1" using random_unit_range u by simp
  have val: "fst (uniform a b r) = a + (b - a) * u"
    by (simp add: uniform_def u split: prod.splits)
  have "0 \<le> (b - a) * u" using ab u01 by simp
  moreover have "(b - a) * u \<le> (b - a) * 1"
    using ab u01 by (intro mult_left_mono) auto
  ultimately show ?thesis using val by simp
qed

lemma generate_int:
  "generate (VType TInt) vin r =
     (Some (VInt (fst (randint (- (2 ^ 16)) ((2 ^ 16) - 1) r))), advance 1 r)"
  using randint_rng [of "- (2 ^ 16)" "(2 ^ 16) - 1" r]
  by (auto simp: generate_def split: prod.splits)

lemma generate_float:
  "generate (VType TFloat) vin r =
     (Some (VFloat (fst (uniform (- (2 ^ 16)) ((2 ^ 16) - 1) r))), advance 1 r)"
  using uniform_rng [of "- (2 ^ 16)" "(2 ^ 16) - 1" r]
  by (auto simp: generate_def split: prod.splits)

lemma generate_other:
  "type_in \<noteq> VType TInt \<Longrightarrow> type_in \<noteq> VType TFloat \<Longrightarrow> generate type_in vin r = (vin, r)"
  by (simp add: generate_def)

lemma generate_typed:
  assumes "type_in = VType TInt \<or> type_in = VType TFloat"
  shows "\<exists>v. generate type_in vin r = (Some v, advance 1 r) \<and> isinstance v type_in = Inr True"
  using assms by (auto simp: generate_int generate_float issubclass_def)

lemma triple_defined: "def_stmt notebook_globals triple_def triple_body = Inr triple"
  by (simp add: def_stmt_def positional_def annotation_order_def triple_def_def triple_def
      eval_returns_def notebook_globals_def builtins_def)

lemma floor_defined: "def_stmt notebook_globals floor_def floor_body = Inr floor_fn"
  by (simp add: def_stmt_def positional_def annotation_order_def floor_def_def floor_fn_def
      eval_returns_def notebook_globals_def builtins_def)

lemma plus_defined: "def_stmt builtins plus_def missing_argument = Inr plus_fn"
  by (simp add: def_stmt_def positional_def annotation_order_def plus_def_def plus_fn_def
      eval_returns_def builtins_def)

lemma spin_defined: "def_stmt builtins spin_def spin_body = Inr spin"
  by (simp add: def_stmt_def positional_def annotation_order_def spin_def_def spin_def
      eval_returns_def builtins_def)

lemma twice_defined: "def_stmt builtins twice_def double_body = Inr twice"
  by (simp add: def_stmt_def positional_def annotation_order_def twice_def_def twice_def
      eval_returns_def builtins_def)

lemma sig_triple: "signature_attr triple = Inr (VType TInt, VType TInt)"
  by (simp add: signature_attr_def triple_def first_item_def subscript_def)

lemma sig_floor: "signature_attr floor_fn = Inr (VType TFloat, VType TInt)"
  by (simp add: signature_attr_def floor_fn_def first_item_def subscript_def)

lemma sig_spin: "signature_attr spin = Inr (VType TInt, VType TInt)"
  by (simp add: signature_attr_def spin_def first_item_def subscript_def)

lemma sig_twice: "signature_attr twice = Inr (VType TStr, VType TStr)"
  by (simp add: signature_attr_def twice_def first_item_def subscript_def)

lemma safe_loop_conforming:
  assumes ty: "type_in = VType TInt \<or> type_in = VType TFloat"
    and ok: "\<forall>v. isinstance v type_in = Inr True \<longrightarrow>
               (\<exists>w. f v = Returns w \<and> isinstance w type_out = Inr True)"
  shows "safe_loop f type_in type_out n vin r = Some (True, advance n r)"
proof (induction n arbitrary: vin r)
  case 0
  show ?case by (simp add: advance_0)
next
  case (Suc n)
  obtain v where g: "generate type_in vin r = (Some v, advance 1 r)"
    and inst: "isinstance v type_in = Inr True"
    using generate_typed [OF ty] by blast
  obtain w where w: "f v = Returns w" "isinstance w type_out = Inr True"
    using ok inst by blast
  have t: "try_body f type_out (Some v) = Some (Inr ())"
    by (simp add: try_body_def w)
  show ?case
    by (simp add: g t Suc.IH advance_advance)
qed

lemma triple_conforms:
  "isinstance v (VType TInt) = Inr True \<Longrightarrow>
   \<exists>w. call triple v = Returns w \<and> isinstance w (VType TInt) = Inr True"
  by (cases v) (auto simp: triple_def triple_body_def to_outcome_def py_add_def issubclass_def)

lemma triple_int: "call triple (VInt n) = Returns (VInt (n + n + n))"
  by (simp add: triple_def triple_body_def to_outcome_def py_add_def)

lemma safe_loop_unhandled:
  assumes "type_in \<noteq> VType TInt" "type_in \<noteq> VType TFloat"
  shows "safe_loop f type_in type_out (Suc n) None r = Some (False, r)"
  by (simp add: generate_other [OF assms] try_body_def)

lemma safe_loop_first_failure:
  assumes "k < n"
    and "\<forall>j<k. try_body f type_out (fst (trial_input type_in vin j r)) = Some (Inr ())"
    and "try_body f type_out (fst (trial_input type_in vin k r)) = Some (Inl e)"
  shows "safe_loop f type_in type_out n vin r = Some (False, snd (trial_input type_in vin k r))"
  using assms
proof (induction k arbitrary: n vin r)
  case 0
  then obtain m where n: "n = Suc m" by (cases n) auto
  obtain v' r' where g: "generate type_in vin r = (v', r')" by (cases "generate type_in vin r")
  from 0(3) g have "try_body f type_out v' = Some (Inl e)" by simp
  then show ?case by (simp add: n g)
next
  case (Suc k)
  then obtain m where n: "n = Suc m" and km: "k < m" by (cases n) auto
  obtain v' r' where g: "generate type_in vin r = (v', r')" by (cases "generate type_in vin r")
  have first: "try_body f type_out v' = Some (Inr ())"
    using Suc.prems(2) g by (auto dest: spec [of _ 0])
  have rest: "\<forall>j<k. try_body f type_out (fst (trial_input type_in v' j r')) = Some (Inr ())"
  proof (intro allI impI)
    fix j assume "j < k"
    then have "Suc j < Suc k" by simp
    with Suc.prems(2) have
      "try_body f type_out (fst (trial_input type_in vin (Suc j) r)) = Some (Inr ())"
      by blast
    then show "try_body f type_out (fst (trial_input type_in v' j r')) = Some (Inr ())"
      by (simp add: g)
  qed
  have last: "try_body f type_out (fst (trial_input type_in v' k r')) = Some (Inl e)"
    using Suc.prems(3) by (simp add: g)
  have "safe_loop f type_in type_out m v' r' = Some (False, snd (trial_input type_in v' k r'))"
    using Suc.IH [OF km rest last] .
  then show ?case by (simp add: n g first)
qed

lemma call_floor: "call floor_fn = floor_body"
  by (simp add: floor_fn_def)

lemma call_spin: "call spin v = Diverges"
  by (simp add: spin_def spin_body_def)

lemma try_floor:
  "try_body floor_body (VType TInt) (Some (VFloat x)) =
     (if x > 0 then Some (Inr ()) else Some (Inl AssertionError))"
  by (simp add: try_body_def issubclass_def)

lemma safe_loop_floor:
  assumes "k < n"
    and "fst (generate (VType TFloat) None (advance k r)) = Some (VFloat x)"
    and "x \<le> 0"
  shows "\<exists>j\<le>k. safe_loop floor_body (VType TFloat) (VType TInt) n vin r
                  = Some (False, advance (Suc j) r)"
  using assms
proof (induction n arbitrary: k vin r)
  case 0
  then show ?case by simp
next
  case (Suc n)
  define x0 where "x0 = fst (uniform (- (2 ^ 16)) ((2 ^ 16) - 1) r)"
  have g: "generate (VType TFloat) vin r = (Some (VFloat x0), advance 1 r)"
    by (simp add: generate_float x0_def)
  show ?case
  proof (cases "x0 > 0")
    case False
    then have "safe_loop floor_body (VType TFloat) (VType TInt) (Suc n) vin r
               = Some (False, advance (Suc 0) r)"
      by (simp add: g try_floor)
    then show ?thesis by blast
  next
    case True
    have "k \<noteq> 0"
    proof
      assume "k = 0"
      with Suc.prems(2) have "x = x0"
        by (simp add: generate_float x0_def advance_0)
      with True Suc.prems(3) show False by simp
    qed
    then obtain k' where k: "k = Suc k'" by (cases k) auto
    have lt: "k' < n" using Suc.prems(1) k by simp
    have gen: "fst (generate (VType TFloat) None (advance k' (advance 1 r))) = Some (VFloat x)"
      using Suc.prems(2) by (simp add: k advance_advance)
    obtain j where j: "j \<le> k'"
      and res: "safe_loop floor_body (VType TFloat) (VType TInt) n (Some (VFloat x0)) (advance 1 r)
                = Some (False, advance (Suc j) (advance 1 r))"
      using Suc.IH [OF lt gen Suc.prems(3)] by blast
    have "safe_loop floor_body (VType TFloat) (VType TInt) (Suc n) vin r
          = Some (False, advance (Suc (Suc j)) r)"
      using True res by (simp add: g try_floor advance_advance)
    moreover have "Suc j \<le> k" using j k by simp
    ultimately show ?thesis by blast
  qed
qed

lemma safe_loop_returns:
  assumes ty: "type_in = VType TInt \<or> type_in = VType TFloat"
    and nohang: "\<forall>v. isinstance v type_in = Inr True \<longrightarrow> f v \<noteq> Diverges"
  shows "safe_loop f type_in type_out n vin r = Some (True, advance n r)
         \<or> (\<exists>k<n. safe_loop f type_in type_out n vin r = Some (False, advance (Suc k) r))"
proof (induction n arbitrary: vin r)
  case 0
  show ?case by (simp add: advance_0)
next
  case (Suc n)
  obtain v where g: "generate type_in vin r = (Some v, advance 1 r)"
    and inst: "isinstance v type_in = Inr True"
    using generate_typed [OF ty] by blast
  have nd: "f v \<noteq> Diverges" using nohang inst by blast
  then have "try_body f type_out (Some v) \<noteq> None"
    by (auto simp: try_body_def split: outcome.splits sum.splits)
  then obtain t where t: "try_body f type_out (Some v) = Some t" by blast
  then consider e where "try_body f type_out (Some v) = Some (Inl e)"
    | "try_body f type_out (Some v) = Some (Inr ())"
    by (cases t) auto
  then show ?case
  proof cases
    case 1
    then have "safe_loop f type_in type_out (Suc n) vin r = Some (False, advance (Suc 0) r)"
      by (simp add: g)
    then show ?thesis by blast
  next
    case 2
    from Suc.IH [of "Some v" "advance 1 r"] show ?thesis
    proof
      assume "safe_loop f type_in type_out n (Some v) (advance 1 r)
              = Some (True, advance n (advance 1 r))"
      then show ?thesis by (simp add: g 2 advance_advance)
    next
      assume "\<exists>k<n. safe_loop f type_in type_out n (Some v) (advance 1 r)
              = Some (False, advance (Suc k) (advance 1 r))"
      then obtain k where "k < n"
        and "safe_loop f type_in type_out n (Some v) (advance 1 r)
             = Some (False, advance (Suc k) (advance 1 r))" by blast
      then have "Suc k < Suc n \<and> safe_loop f type_in type_out (Suc n) vin r
                 = Some (False, advance (Suc (Suc k)) r)"
        by (simp add: g 2 advance_advance)
      then show ?thesis by blast
    qed
  qed
qed

lemma safe_for_spin: "safe_for (Suc n) spin r = None"
  by (simp add: safe_for_def sig_spin generate_int try_body_def call_spin)

lemma safe_loop_cong:
  assumes "\<forall>v. trial_ok g type_out v = trial_ok f type_out v"
  shows "safe_loop g type_in type_out n vin r = safe_loop f type_in type_out n vin r"
proof (induction n arbitrary: vin r)
  case 0
  show ?case by simp
next
  case (Suc n)
  obtain v' r' where gen: "generate type_in vin r = (v', r')"
    by (cases "generate type_in vin r")
  show ?case
  proof (cases v')
    case None
    then show ?thesis by (simp add: gen try_body_def)
  next
    case (Some v)
    have eq: "trial_ok g type_out v = trial_ok f type_out v" using assms by blast
    show ?thesis
    proof (cases "try_body f type_out (Some v)")
      case None
      then have "trial_ok f type_out v = None" by (simp add: trial_ok_def)
      then have "try_body g type_out (Some v) = None"
        using eq by (auto simp: trial_ok_def split: option.splits sum.splits)
      then show ?thesis using None by (simp add: gen Some)
    next
      case inner: (Some t)
      show ?thesis
      proof (cases t)
        case (Inl e)
        then have "trial_ok f type_out v = Some False" using inner by (simp add: trial_ok_def)
        then obtain e' where "try_body g type_out (Some v) = Some (Inl e')"
          using eq by (auto simp: trial_ok_def split: option.splits sum.splits)
        then show ?thesis using inner Inl by (simp add: gen Some)
      next
        case (Inr u)
        then have "trial_ok f type_out v = Some True" using inner by (simp add: trial_ok_def)
        then have "try_body g type_out (Some v) = Some (Inr ())"
          using eq by (auto simp: trial_ok_def split: option.splits sum.splits)
        then show ?thesis using inner Inr by (simp add: gen Some Suc.IH)
      qed
    qed
  qed
qed

lemma try_body_failure:
  assumes "f v = Raises e \<or> (\<exists>w. f v = Returns w \<and> isinstance w type_out \<noteq> Inr True)"
  shows "\<exists>e'. try_body f type_out (Some v) = Some (Inl e')"
  using assms by (auto simp: try_body_def split: sum.splits)






lemma sig_double: "signature_attr double = Inr (VType TInt, VType TInt)"
  by (simp add: signature_attr_def double_def first_item_def subscript_def)

lemma sig_floor_raising: "signature_attr floor_raising = Inr (VType TFloat, VType TInt)"
  by (simp add: signature_attr_def floor_raising_def first_item_def subscript_def)


lemma sample_first:
  "generate (VType TFloat) None sample_rng
     = (Some (VFloat (131069 / 4)), advance (Suc 0) sample_rng)"
  by (simp add: generate_float uniform_def random_unit_def next_word_def sample_rng_def)

lemma sample_second:
  "generate (VType TFloat) v (advance (Suc 0) sample_rng)
     = (Some (VFloat (- 65536)), advance 2 sample_rng)"
  by (simp add: generate_float uniform_def random_unit_def next_word_def sample_rng_def
      advance_def)

lemma floor_raising_same_trials:
  "trial_ok (call floor_raising) (VType TInt) v = trial_ok (call floor_fn) (VType TInt) v"
  by (cases v)
    (auto simp: trial_ok_def try_body_def floor_raising_def floor_raising_body_def
      floor_fn_def issubclass_def)

lemma generate_ignores_value:
  assumes "type_in = VType TInt \<or> type_in = VType TFloat"
  shows "generate type_in vin r = generate type_in None r"
  using assms by (auto simp: generate_int generate_float)

lemma trial_input_typed:
  assumes ty: "type_in = VType TInt \<or> type_in = VType TFloat"
  shows "trial_input type_in vin k r = generate type_in None (advance k r)"
proof (induction k arbitrary: vin r)
  case 0
  show ?case using generate_ignores_value [OF ty] by (simp add: advance_0)
next
  case (Suc k)
  obtain v where g: "generate type_in vin r = (Some v, advance 1 r)"
    using generate_typed [OF ty] by blast
  show ?case by (simp add: g Suc.IH advance_advance)
qed








section \<open>The claims\<close>

text \<open>
  Claim C1. When the declared input type is \<open>int\<close> or \<open>float\<close> and every call of the
  callable on an instance of the declared input type returns an instance of the declared
  output type, the checker returns \<open>True\<close> for every number of trials, zero included,
  after one draw from the generator per trial.
\<close>

theorem safe_true_for_conforming:
  assumes "signature_attr f = Inr (type_in, type_out)"
    and "type_in = VType TInt \<or> type_in = VType TFloat"
    and "\<forall>v. isinstance v type_in = Inr True \<longrightarrow>
           (\<exists>w. call f v = Returns w \<and> isinstance w type_out = Inr True)"
  shows "safe_for n f r = Some (Inr (True, advance n r))"
  using assms(1) safe_loop_conforming [OF assms(2) assms(3)]
  by (simp add: safe_for_def)

theorem safe_true_for_conforming_witness:
  "signature_attr triple = Inr (VType TInt, VType TInt)
   \<and> safe_for 3 triple (constant_rng 7) = Some (Inr (True, advance 3 (constant_rng 7)))"
  using safe_true_for_conforming [of triple "VType TInt" "VType TInt" 3 "constant_rng 7"]
    sig_triple triple_conforms
  by blast

text \<open>
  Claim C2. The checker is fail-fast: when the trials before trial \<open>k\<close> pass and trial \<open>k\<close>
  leaves the \<open>try\<close> body by an exception (raised by the callable, by \<open>isinstance\<close> or by
  the \<open>assert\<close>), the result is \<open>False\<close> with the generator as trial \<open>k\<close> left it, for
  every number of trials above \<open>k\<close> and whatever later trials would have done.
\<close>

theorem safe_fail_fast:
  assumes "signature_attr f = Inr (type_in, type_out)"
    and "k < n"
    and "\<forall>j<k. try_body (call f) type_out (fst (trial_input type_in None j r)) = Some (Inr ())"
    and "try_body (call f) type_out (fst (trial_input type_in None k r)) = Some (Inl e)"
  shows "safe_for n f r = Some (Inr (False, snd (trial_input type_in None k r)))"
  using assms(1) safe_loop_first_failure [OF assms(2) assms(3) assms(4)]
  by (simp add: safe_for_def)

theorem safe_fail_fast_witness:
  "signature_attr floor_fn = Inr (VType TFloat, VType TInt)
   \<and> try_body (call floor_fn) (VType TInt) (fst (trial_input (VType TFloat) None 0 sample_rng))
       = Some (Inr ())
   \<and> try_body (call floor_fn) (VType TInt) (fst (trial_input (VType TFloat) None 1 sample_rng))
       = Some (Inl AssertionError)
   \<and> safe_for 10000 floor_fn sample_rng = Some (Inr (False, advance 2 sample_rng))"
proof -
  have t0: "try_body (call floor_fn) (VType TInt)
              (fst (trial_input (VType TFloat) None 0 sample_rng)) = Some (Inr ())"
    by (simp add: sample_first call_floor try_floor)
  have t1: "try_body (call floor_fn) (VType TInt)
              (fst (trial_input (VType TFloat) None 1 sample_rng)) = Some (Inl AssertionError)"
    by (simp add: sample_first sample_second call_floor try_floor)
  have before: "\<forall>j<1. try_body (call floor_fn) (VType TInt)
              (fst (trial_input (VType TFloat) None j sample_rng)) = Some (Inr ())"
    using t0 by simp
  have "safe_for 10000 floor_fn sample_rng
        = Some (Inr (False, snd (trial_input (VType TFloat) None 1 sample_rng)))"
    using safe_fail_fast [OF sig_floor _ before t1, of 10000] by simp
  then show ?thesis
    using t0 t1 by (simp add: sig_floor sample_first sample_second)
qed

text \<open>
  Claim C3. \<open>floor\<close> is declared from \<open>float\<close> to \<open>int\<close>. On a float that is not
  positive it returns its argument, a float and not an \<open>int\<close>; so when the input
  generated for one of the 10000 trials is not positive, \<open>safe(floor)\<close> returns \<open>False\<close>,
  at that trial or an earlier one.
\<close>

theorem safe_floor:
  assumes "k < 10000"
    and "fst (trial_input (VType TFloat) None k r) = Some (VFloat x)"
    and "x \<le> 0"
  shows "call floor_fn (VFloat x) = Returns (VFloat x)
         \<and> isinstance (VFloat x) (VType TFloat) = Inr True
         \<and> isinstance (VFloat x) (VType TInt) = Inr False
         \<and> (\<exists>j\<le>k. safe floor_fn r = Some (Inr (False, advance (Suc j) r)))"
proof -
  have gen: "fst (generate (VType TFloat) None (advance k r)) = Some (VFloat x)"
    using assms(2) by (simp add: trial_input_typed)
  obtain j where "j \<le> k"
    and "safe_loop floor_body (VType TFloat) (VType TInt) 10000 None r
         = Some (False, advance (Suc j) r)"
    using safe_loop_floor [OF assms(1) gen assms(3)] by blast
  then have "\<exists>j\<le>k. safe floor_fn r = Some (Inr (False, advance (Suc j) r))"
    by (auto simp: safe_def safe_for_def sig_floor call_floor)
  then show ?thesis
    using assms(3) by (simp add: call_floor issubclass_def)
qed

theorem safe_floor_witness:
  "fst (trial_input (VType TFloat) None 1 sample_rng) = Some (VFloat (- 65536))
   \<and> call floor_fn (VFloat (- 65536)) = Returns (VFloat (- 65536))
   \<and> isinstance (VFloat (- 65536)) (VType TInt) = Inr False
   \<and> (\<exists>j. safe floor_fn sample_rng = Some (Inr (False, advance (Suc j) sample_rng)))"
proof -
  have g: "fst (trial_input (VType TFloat) None 1 sample_rng) = Some (VFloat (- 65536))"
    by (simp add: sample_first sample_second)
  show ?thesis
    using safe_floor [of 1 sample_rng "- 65536"] g by auto
qed

text \<open>
  Claim C4. \<open>triple\<close> is declared from \<open>int\<close> to \<open>int\<close> and returns \<open>x + x + x\<close>: on
  every integer the result is an integer, and \<open>safe(triple)\<close> returns \<open>True\<close> whatever
  the generator draws.
\<close>

theorem safe_triple:
  "call triple (VInt n) = Returns (VInt (n + n + n))
   \<and> isinstance (VInt (n + n + n)) (VType TInt) = Inr True
   \<and> signature_attr triple = Inr (VType TInt, VType TInt)
   \<and> safe triple r = Some (Inr (True, advance 10000 r))"
proof -
  have "safe_loop (call triple) (VType TInt) (VType TInt) 10000 None r
        = Some (True, advance 10000 r)"
    by (rule safe_loop_conforming) (use triple_conforms in blast)+
  then show ?thesis
    by (simp add: safe_def safe_for_def sig_triple triple_int issubclass_def)
qed

text \<open>
  Claim C5. Once the signature is extracted, no exception leaves \<open>safe\<close>; a trial in which
  the callable raises or returns an object that fails the conformance check makes the
  result \<open>False\<close>; and the result keeps no detail of the error: two callables with the
  same annotations whose trials pass, fail or hang on the same inputs get the same result.
\<close>

theorem safe_catches_everything:
  assumes "signature_attr f = Inr (type_in, type_out)"
  shows "safe_for n f r \<noteq> Some (Inl e)
   \<and> (k < n
        \<and> (\<forall>j<k. try_body (call f) type_out (fst (trial_input type_in None j r)) = Some (Inr ()))
        \<and> fst (trial_input type_in None k r) = Some v
        \<and> (call f v = Raises e
            \<or> (\<exists>w. call f v = Returns w \<and> isinstance w type_out \<noteq> Inr True))
      \<longrightarrow> safe_for n f r = Some (Inr (False, snd (trial_input type_in None k r))))
   \<and> (annotations g = annotations f
        \<and> (\<forall>v. trial_ok (call g) type_out v = trial_ok (call f) type_out v)
      \<longrightarrow> safe_for n g r = safe_for n f r)"
proof (intro conjI impI)
  show "safe_for n f r \<noteq> Some (Inl e)"
    using assms by (auto simp: safe_for_def)
next
  assume h: "k < n
        \<and> (\<forall>j<k. try_body (call f) type_out (fst (trial_input type_in None j r)) = Some (Inr ()))
        \<and> fst (trial_input type_in None k r) = Some v
        \<and> (call f v = Raises e
            \<or> (\<exists>w. call f v = Returns w \<and> isinstance w type_out \<noteq> Inr True))"
  then obtain e' where
    "try_body (call f) type_out (fst (trial_input type_in None k r)) = Some (Inl e')"
    using try_body_failure [of "call f" v e type_out] by auto
  with h have "safe_loop (call f) type_in type_out n None r
               = Some (False, snd (trial_input type_in None k r))"
    by (intro safe_loop_first_failure) auto
  then show "safe_for n f r = Some (Inr (False, snd (trial_input type_in None k r)))"
    using assms by (simp add: safe_for_def)
next
  assume h: "annotations g = annotations f
        \<and> (\<forall>v. trial_ok (call g) type_out v = trial_ok (call f) type_out v)"
  then have "signature_attr g = Inr (type_in, type_out)"
    using assms by (simp add: signature_attr_def)
  moreover have "safe_loop (call g) type_in type_out n None r
                 = safe_loop (call f) type_in type_out n None r"
    using h by (intro safe_loop_cong) auto
  ultimately show "safe_for n g r = safe_for n f r"
    using assms by (simp add: safe_for_def)
qed

theorem safe_catches_everything_witness:
  "signature_attr floor_fn = Inr (VType TFloat, VType TInt)
   \<and> annotations floor_raising = annotations floor_fn
   \<and> safe_for 10000 floor_fn sample_rng \<noteq> Some (Inl AssertionError)
   \<and> fst (trial_input (VType TFloat) None 1 sample_rng) = Some (VFloat (- 65536))
   \<and> call floor_fn (VFloat (- 65536)) = Returns (VFloat (- 65536))
   \<and> isinstance (VFloat (- 65536)) (VType TInt) \<noteq> Inr True
   \<and> safe_for 10000 floor_fn sample_rng = Some (Inr (False, advance 2 sample_rng))
   \<and> safe_for 10000 floor_raising sample_rng = safe_for 10000 floor_fn sample_rng"
proof -
  have a: "annotations floor_raising = annotations floor_fn"
    by (simp add: floor_raising_def floor_fn_def)
  have t0: "\<forall>j<1. try_body (call floor_fn) (VType TInt)
              (fst (trial_input (VType TFloat) None j sample_rng)) = Some (Inr ())"
    by (simp add: sample_first call_floor try_floor)
  have t1: "fst (trial_input (VType TFloat) None 1 sample_rng) = Some (VFloat (- 65536))"
    by (simp add: sample_first sample_second)
  have c: "call floor_fn (VFloat (- 65536)) = Returns (VFloat (- 65536))"
    by (simp add: call_floor)
  have i: "isinstance (VFloat (- 65536)) (VType TInt) \<noteq> Inr True"
    by (simp add: issubclass_def)
  have s: "snd (trial_input (VType TFloat) None 1 sample_rng) = advance 2 sample_rng"
    by (simp add: sample_first sample_second)
  show ?thesis
    using safe_catches_everything
      [OF sig_floor, of 10000 sample_rng AssertionError 1 "VFloat (- 65536)" floor_raising]
      a floor_raising_same_trials t0 t1 c i s
    by (simp add: sig_floor)
qed

text \<open>
  Claim C6. The two extraction strategies differ on a declaration that uses a type alias:
  for \<open>double\<close>, declared with \<open>Number = int\<close> on the parameter and the result, the
  source-based \<open>signature\<close> returns the alias's name twice, as text, and the
  attribute-based \<open>signature\<close> returns the class object \<open>int\<close> twice; the two results
  differ, and the attribute-based one does not hold the alias name.
\<close>

theorem signature_alias_double:
  "def_stmt notebook_globals double_def double_body = Inr double
   \<and> signature_ast double = Inr (VStr ''Number'', VStr ''Number'')
   \<and> signature_attr double = Inr (VType TInt, VType TInt)
   \<and> signature_ast double \<noteq> signature_attr double
   \<and> signature_attr double \<noteq> Inr (VStr ''Number'', VStr ''Number'')"
  by (simp add: def_stmt_def positional_def annotation_order_def double_def_def double_def
      eval_returns_def notebook_globals_def builtins_def signature_ast_def
      signature_attr_def first_item_def subscript_def)




text \<open>
  Claim C8. For the declared input type \<open>int\<close> the generated value is an integer between
  \<open>-2^16\<close> and \<open>2^16 - 1\<close> inclusive, for \<open>float\<close> it is a float in the same range, and
  for any other declared input type nothing is generated: \<open>value_in\<close> and the generator stay
  as they were.
\<close>

theorem generators_bounded:
  "(\<exists>k r'. generate (VType TInt) vin r = (Some (VInt k), r') \<and> - (2 ^ 16) \<le> k \<and> k \<le> 2 ^ 16 - 1)
   \<and> (\<exists>x r'. generate (VType TFloat) vin r = (Some (VFloat x), r')
          \<and> - (2 ^ 16) \<le> x \<and> x \<le> 2 ^ 16 - 1)
   \<and> (type_in \<noteq> VType TInt \<and> type_in \<noteq> VType TFloat \<longrightarrow> generate type_in vin r = (vin, r))"
proof -
  have "- (2 ^ 16) \<le> fst (randint (- (2 ^ 16)) ((2 ^ 16) - 1) r)
        \<and> fst (randint (- (2 ^ 16)) ((2 ^ 16) - 1) r) \<le> 2 ^ 16 - 1"
    by (rule randint_range) simp
  then have a: "\<exists>k r'. generate (VType TInt) vin r = (Some (VInt k), r')
                 \<and> - (2 ^ 16) \<le> k \<and> k \<le> 2 ^ 16 - 1"
    by (simp add: generate_int)
  have "- (2 ^ 16) \<le> fst (uniform (- (2 ^ 16)) ((2 ^ 16) - 1) r)
        \<and> fst (uniform (- (2 ^ 16)) ((2 ^ 16) - 1) r) \<le> 2 ^ 16 - 1"
    by (rule uniform_range) simp
  then have b: "\<exists>x r'. generate (VType TFloat) vin r = (Some (VFloat x), r')
                 \<and> - (2 ^ 16) \<le> x \<and> x \<le> 2 ^ 16 - 1"
    by (simp add: generate_float)
  show ?thesis using a b by (simp add: generate_other)
qed

theorem generators_bounded_witness:
  "VType TStr \<noteq> VType TInt \<and> VType TStr \<noteq> VType TFloat
   \<and> generate (VType TStr) None (constant_rng 7) = (None, constant_rng 7)"
  using generators_bounded [of None "constant_rng 7" "VType TStr"] by simp

text \<open>
  Claim C9 as stated fails: \<open>spin\<close> has an extracted signature with input type \<open>int\<close>,
  and \<open>safe(spin)\<close> does not return.
\<close>

theorem safe_spin_never_returns:
  "signature_attr spin = Inr (VType TInt, VType TInt) \<and> safe spin (constant_rng 0) = None"
proof -
  have "(10000::nat) = Suc 9999" by simp
  then show ?thesis
    using safe_for_spin [of 9999 "constant_rng 0"] by (simp add: safe_def sig_spin)
qed

text \<open>
  Claim C9, amended. When the signature is extracted, the declared input type is \<open>int\<close> or
  \<open>float\<close> and every call of the callable on an instance of that type comes back (by a
  result or by an exception), \<open>safe\<close> returns one Boolean: \<open>True\<close> after all the trials,
  or \<open>False\<close> at the first failing trial; no exception leaves it.
\<close>

theorem safe_returns_boolean:
  assumes "signature_attr f = Inr (type_in, type_out)"
    and "type_in = VType TInt \<or> type_in = VType TFloat"
    and "\<forall>v. isinstance v type_in = Inr True \<longrightarrow> call f v \<noteq> Diverges"
  shows "safe_for n f r = Some (Inr (True, advance n r))
         \<or> (\<exists>k<n. safe_for n f r = Some (Inr (False, advance (Suc k) r)))"
  using assms(1) safe_loop_returns [OF assms(2) assms(3), of type_out n None r]
  by (auto simp: safe_for_def)

theorem safe_returns_boolean_witness:
  "signature_attr triple = Inr (VType TInt, VType TInt)
   \<and> safe_for 2 triple (constant_rng 7) \<noteq> None"
proof -
  have "\<forall>v. isinstance v (VType TInt) = Inr True \<longrightarrow> call triple v \<noteq> Diverges"
    using triple_conforms by fastforce
  then show ?thesis
    using safe_returns_boolean [of triple "VType TInt" "VType TInt" 2 "constant_rng 7"]
      sig_triple
    by auto
qed

text \<open>
  Claim C10. When the declared input type is neither \<open>int\<close> nor \<open>float\<close>, no generator
  statement assigns \<open>value_in\<close>, the first trial raises inside the \<open>try\<close> statement and
  \<open>safe\<close> returns \<open>False\<close>, without a draw from the generator and whatever the
  callable does.
\<close>

theorem safe_unhandled_input_type:
  assumes "signature_attr f = Inr (type_in, type_out)"
    and "type_in \<noteq> VType TInt" and "type_in \<noteq> VType TFloat"
  shows "try_body (call f) type_out (fst (trial_input type_in None 0 r))
           = Some (Inl UnboundLocalError)
         \<and> safe_for (Suc n) f r = Some (Inr (False, r))
         \<and> safe f r = Some (Inr (False, r))"
proof -
  have ten: "(10000::nat) = Suc 9999" by simp
  have first: "try_body (call f) type_out (fst (trial_input type_in None 0 r))
                 = Some (Inl UnboundLocalError)"
    by (simp add: generate_other [OF assms(2) assms(3)] try_body_def)
  have any: "safe_for (Suc m) f r = Some (Inr (False, r))" for m
    using assms(1) safe_loop_unhandled [OF assms(2) assms(3), of "call f" type_out m r]
    by (simp add: safe_for_def)
  have "safe f r = Some (Inr (False, r))"
    unfolding safe_def ten by (rule any)
  then show ?thesis using first any by simp
qed

theorem safe_unhandled_input_type_witness:
  "signature_attr twice = Inr (VType TStr, VType TStr)
   \<and> VType TStr \<noteq> VType TInt \<and> VType TStr \<noteq> VType TFloat
   \<and> safe_for 1 twice (constant_rng 7) = Some (Inr (False, constant_rng 7))
   \<and> safe twice (constant_rng 7) = Some (Inr (False, constant_rng 7))"
  using safe_unhandled_input_type [of twice "VType TStr" "VType TStr" "constant_rng 7" 0]
  by (simp add: sig_twice)

end
